theory Spec2Isabelle
  imports Main "HOL-Library.AList" "HOL-Library.Monad_Syntax"
begin

section \<open>Runtime values\<close>

text \<open>
  The library is generic TypeScript; at run time its sources, targets and \<open>set\<close>
  arguments are plain JavaScript values, and \<open>set\<close> tells an updater from a literal by
  \<^verbatim>\<open>typeof a === 'function'\<close>. The model therefore works on one type of run-time
  values.

  \<^item> \<open>Obj fs\<close> is a plain record, as an object literal creates it: \<open>fs\<close> lists its own
    properties, all enumerable, and it inherits from \<^verbatim>\<open>Object.prototype\<close>.
  \<^item> \<open>Inst own rest\<close> is any other object (an array, an instance of a class): \<open>own\<close>
    lists its own enumerable properties, \<open>rest\<close> the further properties that a read
    finds, which an object spread does not copy: the own properties that are not
    enumerable (the \<^verbatim>\<open>length\<close> of an array) and then the inherited ones.
  \<^item> \<open>Fn f\<close> is a function value, a reference; what calling it returns is given by the
    host, a parameter \<open>call\<close> of every operation that may invoke an updater.

  Properties are data properties with string keys (a numeric key is its decimal string).
  A result of type \<open>val option\<close> is \<open>None\<close> when the JavaScript call returns no value:
  a property of \<open>undefined\<close> or \<open>null\<close> is read (TypeError), or a caller-supplied
  function raises.
\<close>

type_synonym fid = nat

datatype val =
    Undefined
  | Null
  | Bool bool
  | Num int
  | Str string
  | Obj "(string \<times> val) list"
  | Inst "(string \<times> val) list" "(string \<times> val) list"
  | Fn fid

type_synonym host = "fid \<Rightarrow> val \<Rightarrow> val option"

text \<open>
  The built-in objects of the JavaScript realm are a parameter too: the properties that
  every plain record inherits from \<^verbatim>\<open>Object.prototype\<close>, and for a boolean, a
  number, a string or a function its own enumerable properties (the characters of a
  string, by index) and the further properties that a read of it finds (the
  \<^verbatim>\<open>length\<close> of a string, what its prototype provides).
\<close>

record realm =
  objectProto :: "(string \<times> val) list"
  ownEnumerable :: "val \<Rightarrow> (string \<times> val) list"
  otherProperties :: "val \<Rightarrow> (string \<times> val) list"

text \<open>\<^verbatim>\<open>typeof a === 'function'\<close>\<close>

fun isFunction :: "val \<Rightarrow> bool" where
  "isFunction (Fn f) = True"
| "isFunction Undefined = False"
| "isFunction Null = False"
| "isFunction (Bool b) = False"
| "isFunction (Num n) = False"
| "isFunction (Str s) = False"
| "isFunction (Obj fs) = False"
| "isFunction (Inst own rest) = False"

text \<open>The call \<^verbatim>\<open>a(x)\<close>; calling a value that is not a function raises.\<close>

fun invoke :: "host \<Rightarrow> val \<Rightarrow> val \<Rightarrow> val option" where
  "invoke call (Fn f) x = call f x"
| "invoke call Undefined x = None"
| "invoke call Null x = None"
| "invoke call (Bool b) x = None"
| "invoke call (Num n) x = None"
| "invoke call (Str s) x = None"
| "invoke call (Obj fs) x = None"
| "invoke call (Inst own rest) x = None"

text \<open>
  The own enumerable properties of a value, which the object spread \<^verbatim>\<open>{ ...s }\<close>
  copies; spreading \<open>undefined\<close> or \<open>null\<close> copies nothing.
\<close>

fun spread :: "realm \<Rightarrow> val \<Rightarrow> (string \<times> val) list" where
  "spread R (Obj fs) = fs"
| "spread R (Inst own rest) = own"
| "spread R Undefined = []"
| "spread R Null = []"
| "spread R (Bool b) = ownEnumerable R (Bool b)"
| "spread R (Num n) = ownEnumerable R (Num n)"
| "spread R (Str s) = ownEnumerable R (Str s)"
| "spread R (Fn f) = ownEnumerable R (Fn f)"

text \<open>The further properties of a value that a read finds and a spread does not copy.\<close>

fun furtherProps :: "realm \<Rightarrow> val \<Rightarrow> (string \<times> val) list" where
  "furtherProps R (Obj fs) = objectProto R"
| "furtherProps R (Inst own rest) = rest"
| "furtherProps R Undefined = []"
| "furtherProps R Null = []"
| "furtherProps R (Bool b) = otherProperties R (Bool b)"
| "furtherProps R (Num n) = otherProperties R (Num n)"
| "furtherProps R (Str s) = otherProperties R (Str s)"
| "furtherProps R (Fn f) = otherProperties R (Fn f)"

text \<open>
  A read looks among the own enumerable properties first, then among the further ones;
  a property found in neither reads as \<open>undefined\<close>.
\<close>

definition readProp :: "(string \<times> val) list \<Rightarrow> (string \<times> val) list \<Rightarrow> string \<Rightarrow> val" where
  "readProp own further key =
     (case map_of own key of
        Some v \<Rightarrow> v
      | None \<Rightarrow> (case map_of further key of Some v \<Rightarrow> v | None \<Rightarrow> Undefined))"

text \<open>The property read \<^verbatim>\<open>s[key]\<close>.\<close>

fun getProp :: "realm \<Rightarrow> val \<Rightarrow> string \<Rightarrow> val option" where
  "getProp R Undefined key = None"
| "getProp R Null key = None"
| "getProp R (Bool b) key = Some (readProp (spread R (Bool b)) (furtherProps R (Bool b)) key)"
| "getProp R (Num n) key = Some (readProp (spread R (Num n)) (furtherProps R (Num n)) key)"
| "getProp R (Str s) key = Some (readProp (spread R (Str s)) (furtherProps R (Str s)) key)"
| "getProp R (Obj fs) key = Some (readProp (spread R (Obj fs)) (furtherProps R (Obj fs)) key)"
| "getProp R (Inst own rest) key =
     Some (readProp (spread R (Inst own rest)) (furtherProps R (Inst own rest)) key)"
| "getProp R (Fn f) key = Some (readProp (spread R (Fn f)) (furtherProps R (Fn f)) key)"

section \<open>The optic value model\<close>

text \<open>
  \<^verbatim>\<open>Lens<S, A>\<close>, \<^verbatim>\<open>Prism<S, A>\<close> and \<^verbatim>\<open>Iso<S, A>\<close> are three records of
  functions told apart by their \<^verbatim>\<open>_tag\<close>. The curried \<^verbatim>\<open>set(a)(s)\<close> is the
  two-argument \<open>set_fn o a s\<close>; a prism's \<open>get\<close> returns \<open>Some Undefined\<close> for an absent
  branch.
\<close>

datatype tag = LensTag | PrismTag | IsoTag

type_synonym getter = "val \<Rightarrow> val option"
type_synonym setter = "val \<Rightarrow> val \<Rightarrow> val option"

datatype optic =
    Lens (get_fn: getter) (set_fn: setter)
  | Prism (get_fn: getter) (set_fn: setter)
  | Iso (to_fn: getter) (from_fn: getter)

fun tag_of :: "optic \<Rightarrow> tag" where
  "tag_of (Lens g st) = LensTag"
| "tag_of (Prism g st) = PrismTag"
| "tag_of (Iso t f) = IsoTag"

definition makeLens :: "getter \<Rightarrow> setter \<Rightarrow> optic" where
  "makeLens g st = Lens g st"

definition makePrism :: "getter \<Rightarrow> setter \<Rightarrow> optic" where
  "makePrism g st = Prism g st"

definition makeIso :: "getter \<Rightarrow> getter \<Rightarrow> optic" where
  "makeIso t f = Iso t f"

section \<open>Primitive constructors\<close>

text \<open>
  \<^verbatim>\<open>prop(key)\<close> (here \<open>prop_lens\<close>): \<open>get\<close> reads \<^verbatim>\<open>s[key]\<close>; \<open>set\<close> computes
  \<^verbatim>\<open>newA = typeof a === 'function' ? a(s[key]) : a\<close> and returns the object literal
  \<^verbatim>\<open>{ ...s, [key]: newA }\<close>, a new plain record with the own enumerable properties
  of \<open>s\<close> and \<open>newA\<close> under \<open>key\<close>.
\<close>

definition prop_lens :: "realm \<Rightarrow> host \<Rightarrow> string \<Rightarrow> optic" where
  "prop_lens R call key =
     makeLens
       (\<lambda>s. getProp R s key)
       (\<lambda>a s. do {
          newA \<leftarrow> (if isFunction a then do { cur \<leftarrow> getProp R s key; invoke call a cur }
                   else Some a);
          Some (Obj (AList.update key newA (spread R s)))
        })"

text \<open>
  \<^verbatim>\<open>Prism<S>().of({ get, set })\<close>: the caller's \<open>get\<close> is kept, the caller's \<open>set\<close>
  is wrapped.
\<close>

definition of_prism :: "host \<Rightarrow> getter \<Rightarrow> setter \<Rightarrow> optic" where
  "of_prism call prism_get prism_set =
     makePrism
       prism_get
       (\<lambda>a s.
          if isFunction a then do {
            current \<leftarrow> prism_get s;
            if current = Undefined then Some s
            else do { next \<leftarrow> invoke call a current; prism_set next s }
          }
          else prism_set a s)"

section \<open>The composition engine\<close>

text \<open>
  \<^verbatim>\<open>compose(outer, inner)\<close> tests the pair of tags in the order of the source and
  falls through to the general prism.
\<close>

definition compose :: "host \<Rightarrow> optic \<Rightarrow> optic \<Rightarrow> optic" where
  "compose call outer inner =
    (if tag_of outer = LensTag \<and> tag_of inner = LensTag then
       makeLens
         (\<lambda>s. do { a \<leftarrow> get_fn outer s; get_fn inner a })
         (\<lambda>b s. do {
            a \<leftarrow> get_fn outer s;
            newA \<leftarrow> set_fn inner b a;
            set_fn outer newA s
          })
     else if tag_of outer = LensTag \<and> tag_of inner = IsoTag then
       makeLens
         (\<lambda>s. do { a \<leftarrow> get_fn outer s; to_fn inner a })
         (\<lambda>b s. do {
            currentA \<leftarrow> get_fn outer s;
            nextB \<leftarrow> (if isFunction b
                      then do { currentB \<leftarrow> to_fn inner currentA; invoke call b currentB }
                      else Some b);
            newA \<leftarrow> from_fn inner nextB;
            set_fn outer newA s
          })
     else if tag_of outer = IsoTag \<and> tag_of inner = LensTag then
       makeLens
         (\<lambda>s. do { a \<leftarrow> to_fn outer s; get_fn inner a })
         (\<lambda>b s. do {
            a \<leftarrow> to_fn outer s;
            newA \<leftarrow> set_fn inner b a;
            from_fn outer newA
          })
     else if tag_of outer = PrismTag \<and> tag_of inner = IsoTag then
       makePrism
         (\<lambda>s. do {
            outerValue \<leftarrow> get_fn outer s;
            if outerValue = Undefined then Some Undefined else to_fn inner outerValue
          })
         (\<lambda>b s. do {
            outerValue \<leftarrow> get_fn outer s;
            if isFunction b then
              (if outerValue = Undefined then Some s
               else do {
                 currentB \<leftarrow> to_fn inner outerValue;
                 nextB \<leftarrow> invoke call b currentB;
                 newOuterValue \<leftarrow> from_fn inner nextB;
                 set_fn outer newOuterValue s
               })
            else do {
              newOuterValue \<leftarrow> from_fn inner b;
              set_fn outer newOuterValue s
            }
          })
     else if tag_of outer = IsoTag \<and> tag_of inner = PrismTag then
       makePrism
         (\<lambda>s. do { a \<leftarrow> to_fn outer s; get_fn inner a })
         (\<lambda>b s. do {
            a \<leftarrow> to_fn outer s;
            newA \<leftarrow> set_fn inner b a;
            from_fn outer newA
          })
     else if tag_of outer = IsoTag \<and> tag_of inner = IsoTag then
       makeIso
         (\<lambda>s. do { a \<leftarrow> to_fn outer s; to_fn inner a })
         (\<lambda>b. do { a \<leftarrow> from_fn inner b; from_fn outer a })
     else
       makePrism
         (\<lambda>s. do {
            outerValue \<leftarrow> get_fn outer s;
            if outerValue = Undefined then Some Undefined else get_fn inner outerValue
          })
         (\<lambda>b s. do {
            outerValue \<leftarrow> get_fn outer s;
            if outerValue = Undefined then Some s
            else do {
              newOuterValue \<leftarrow> set_fn inner b outerValue;
              set_fn outer newOuterValue s
            }
          }))"

text \<open>
  \<^verbatim>\<open>Lens<S>().compose\<close> and \<^verbatim>\<open>Prism<S>().compose\<close>, the entry points of the two
  factories: each tests the tag of \<open>inner\<close> and calls \<open>compose\<close> in every branch.
\<close>

definition composeForLens :: "host \<Rightarrow> optic \<Rightarrow> optic \<Rightarrow> optic" where
  "composeForLens call outer inner =
     (if tag_of inner = LensTag then compose call outer inner
      else if tag_of inner = PrismTag then compose call outer inner
      else compose call outer inner)"

definition composeForPrism :: "host \<Rightarrow> optic \<Rightarrow> optic \<Rightarrow> optic" where
  "composeForPrism call outer inner =
     (if tag_of inner = LensTag then compose call outer inner
      else if tag_of inner = PrismTag then compose call outer inner
      else compose call outer inner)"

text \<open>The combination table of the specification (rows: outer, columns: inner).\<close>

fun combination_table :: "tag \<Rightarrow> tag \<Rightarrow> tag" where
  "combination_table LensTag LensTag = LensTag"
| "combination_table LensTag PrismTag = PrismTag"
| "combination_table LensTag IsoTag = LensTag"
| "combination_table PrismTag LensTag = PrismTag"
| "combination_table PrismTag PrismTag = PrismTag"
| "combination_table PrismTag IsoTag = PrismTag"
| "combination_table IsoTag LensTag = LensTag"
| "combination_table IsoTag PrismTag = PrismTag"
| "combination_table IsoTag IsoTag = IsoTag"

section \<open>Families of optics\<close>

text \<open>
  The optics that the library's entry points produce: \<^verbatim>\<open>prop\<close>,
  \<^verbatim>\<open>Prism().of\<close>, \<^verbatim>\<open>Iso\<close> (which is \<open>makeIso\<close>) and \<open>compose\<close> of
  two such optics.
\<close>

inductive library_optic :: "realm \<Rightarrow> host \<Rightarrow> optic \<Rightarrow> bool"
  for R :: realm and call :: host where
  lib_prop: "library_optic R call (prop_lens R call key)"
| lib_of: "library_optic R call (of_prism call prism_get prism_set)"
| lib_iso: "library_optic R call (makeIso t f)"
| lib_compose:
    "library_optic R call outer \<Longrightarrow> library_optic R call inner \<Longrightarrow>
     library_optic R call (compose call outer inner)"

text \<open>
  A TypeScript type is read as the set of run-time values that inhabit it. \<open>S\<close> is a
  type of sources with a field \<open>key\<close> of type \<open>A\<close> when every source in \<open>S\<close> can be read
  at \<open>key\<close>, the value read is in \<open>A\<close>, and the record \<^verbatim>\<open>{ ...s, [key]: v }\<close> is in
  \<open>S\<close> again for every \<open>v\<close> in \<open>A\<close>.
\<close>

type_synonym vtype = "val \<Rightarrow> bool"

definition function_free :: "vtype \<Rightarrow> bool" where
  "function_free A = (\<forall>v. A v \<longrightarrow> \<not> isFunction v)"

definition field_type :: "realm \<Rightarrow> string \<Rightarrow> vtype \<Rightarrow> vtype \<Rightarrow> bool" where
  "field_type R key S A =
     (\<forall>s. S s \<longrightarrow>
        (\<exists>a. getProp R s key = Some a \<and> A a) \<and>
        (\<forall>v. A v \<longrightarrow> S (Obj (AList.update key v (spread R s)))))"

text \<open>
  The contract that the library leaves to the caller of \<^verbatim>\<open>Iso<S, A>\<close>, over the
  intended domains: \<open>to\<close> maps \<open>S\<close> into \<open>A\<close>, \<open>from\<close> maps \<open>A\<close> into \<open>S\<close>, and \<open>to\<close>
  undoes \<open>from\<close> on \<open>A\<close>.
\<close>

definition iso_between :: "getter \<Rightarrow> getter \<Rightarrow> vtype \<Rightarrow> vtype \<Rightarrow> bool" where
  "iso_between t f S A =
     ((\<forall>s. S s \<longrightarrow> (\<exists>a. t s = Some a \<and> A a)) \<and>
      (\<forall>a. A a \<longrightarrow> (\<exists>s. f a = Some s \<and> S s \<and> t s = Some a)))"

text \<open>
  The lenses from \<open>S\<close> to \<open>A\<close> built from \<^verbatim>\<open>prop\<close> by the three lens-yielding
  compositions. The type in the middle of a composition whose outer operand is a lens
  contains no function: the middle value is handed to \<open>outer.set\<close>, which would call it.
\<close>

inductive typed_lens :: "realm \<Rightarrow> host \<Rightarrow> optic \<Rightarrow> vtype \<Rightarrow> vtype \<Rightarrow> bool"
  for R :: realm and call :: host where
  typed_prop:
    "field_type R key S A \<Longrightarrow> typed_lens R call (prop_lens R call key) S A"
| typed_lens_lens:
    "typed_lens R call outer S A \<Longrightarrow> function_free A \<Longrightarrow> typed_lens R call inner A B \<Longrightarrow>
     typed_lens R call (compose call outer inner) S B"
| typed_lens_iso:
    "typed_lens R call outer S A \<Longrightarrow> function_free A \<Longrightarrow> iso_between t f A B \<Longrightarrow>
     typed_lens R call (compose call outer (makeIso t f)) S B"
| typed_iso_lens:
    "iso_between t f S A \<Longrightarrow> typed_lens R call inner A B \<Longrightarrow>
     typed_lens R call (compose call (makeIso t f) inner) S B"

text \<open>
  The lenses built from \<^verbatim>\<open>prop\<close> by composition of lens with lens alone, with
  no type attached.
\<close>

inductive prop_chain :: "realm \<Rightarrow> host \<Rightarrow> optic \<Rightarrow> bool"
  for R :: realm and call :: host where
  chain_prop: "prop_chain R call (prop_lens R call key)"
| chain_compose:
    "prop_chain R call outer \<Longrightarrow> prop_chain R call inner \<Longrightarrow>
     prop_chain R call (compose call outer inner)"


section \<open>The property setter on a store of objects\<close>













section \<open>Optics of the documentation and the test suite\<close>

text \<open>
  The host of the examples: function 0 is \<^verbatim>\<open>(r) => r + 1\<close> (on numbers), function 1
  is \<^verbatim>\<open>() => 0\<close>, function 3 is \<^verbatim>\<open>() => f1\<close> (it returns function 1),
  function 7 is \<^verbatim>\<open>Object.prototype.toString\<close> (called as a plain function it
  returns \<^verbatim>\<open>'[object Undefined]'\<close>), and every other function is
  \<^verbatim>\<open>(x) => x\<close>.
\<close>

definition exampleHost :: host where
  "exampleHost f x =
     (if f = 0 then (case x of Num n \<Rightarrow> Some (Num (n + 1)) | _ \<Rightarrow> None)
      else if f = 1 then Some (Num 0)
      else if f = 3 then Some (Fn 1)
      else if f = 7 then Some (Str ''[object Undefined]'')
      else Some x)"


text \<open>
  The realm of the examples. A plain record inherits \<^verbatim>\<open>toString\<close>; a string has its
  characters as own enumerable properties, under their indices in decimal, and a
  \<^verbatim>\<open>length\<close>; a function has a \<^verbatim>\<open>length\<close>. The realm lists no other built-in
  property.
\<close>

function decimal :: "nat \<Rightarrow> string" where
  "decimal n =
     (if n < 10 then [char_of (48 + n)]
      else decimal (n div 10) @ [char_of (48 + n mod 10)])"
  by pat_completeness auto
termination
  by (relation "measure id") auto

declare decimal.simps [simp del]

definition exampleEnumerable :: "val \<Rightarrow> (string \<times> val) list" where
  "exampleEnumerable v =
     (case v of
        Str cs \<Rightarrow> map (\<lambda>i. (decimal i, Str [cs ! i])) [0..<length cs]
      | _ \<Rightarrow> [])"

definition exampleOther :: "val \<Rightarrow> (string \<times> val) list" where
  "exampleOther v =
     (case v of
        Str cs \<Rightarrow> [(''length'', Num (int (length cs)))]
      | Fn f \<Rightarrow> [(''length'', Num (if f = 1 \<or> f = 3 \<or> f = 7 then 0 else 1))]
      | _ \<Rightarrow> [])"

definition exampleRealm :: realm where
  "exampleRealm =
     \<lparr> objectProto = [(''toString'', Fn 7)],
       ownEnumerable = exampleEnumerable,
       otherProperties = exampleOther \<rparr>"

text \<open>
  \<^verbatim>\<open>Prism<Person>().of({ get: (p) => p.address, set: (address) => (p) => ({ ...p, address }) })\<close>
\<close>

definition addressGet :: getter where
  "addressGet p = getProp exampleRealm p ''address''"

definition addressSet :: setter where
  "addressSet address p = Some (Obj (AList.update ''address'' address (spread exampleRealm p)))"

definition addressPrism :: optic where
  "addressPrism = of_prism exampleHost addressGet addressSet"

text \<open>\<^verbatim>\<open>Lens<Address>().prop('city')\<close>, and their composition \<^verbatim>\<open>cityPrism\<close>.\<close>

definition cityLens :: optic where
  "cityLens = prop_lens exampleRealm exampleHost ''city''"

definition cityPrism :: optic where
  "cityPrism = compose exampleHost addressPrism cityLens"

text \<open>The person \<^verbatim>\<open>{ name: 'A' }\<close>, who has no address.\<close>

definition personA :: val where
  "personA = Obj [(''name'', Str ''A'')]"

text \<open>
  \<^verbatim>\<open>Iso<{ value?: number }, number | undefined>({ to: (w) => w.value, from: (value) => ({ value }) })\<close>
  and the prism on \<^verbatim>\<open>number | undefined\<close> whose focus is the value itself,
  \<^verbatim>\<open>of({ get: (a) => a, set: (v) => (_) => v })\<close>.
\<close>

definition boxTo :: getter where
  "boxTo w = getProp exampleRealm w ''value''"

definition boxFrom :: getter where
  "boxFrom v = Some (Obj [(''value'', v)])"

definition boxIso :: optic where
  "boxIso = makeIso boxTo boxFrom"

definition selfGet :: getter where
  "selfGet a = Some a"

definition selfSet :: setter where
  "selfSet v a = Some v"

definition selfPrism :: optic where
  "selfPrism = of_prism exampleHost selfGet selfSet"

text \<open>
  A record with a function-typed field, \<^verbatim>\<open>{ onClick: f2 }\<close>, and the lens on that
  field.
\<close>

definition handlerSource :: val where
  "handlerSource = Obj [(''onClick'', Fn 2)]"


text \<open>
  Two setters a caller may hand to \<^verbatim>\<open>of\<close> for that field: the base shape, which
  installs its argument, and the fuller shape, which applies a function argument to the
  current value itself.
\<close>

definition handlerGet :: getter where
  "handlerGet p = getProp exampleRealm p ''onClick''"

definition handlerSetBase :: setter where
  "handlerSetBase a p = Some (Obj (AList.update ''onClick'' a (spread exampleRealm p)))"

definition handlerSetFull :: setter where
  "handlerSetFull a p =
     do {
       newA \<leftarrow> (if isFunction a
                then do { cur \<leftarrow> getProp exampleRealm p ''onClick''; invoke exampleHost a cur }
                else Some a);
       Some (Obj (AList.update ''onClick'' newA (spread exampleRealm p)))
     }"

text \<open>An inner optic whose functions raise on every input.\<close>

definition raisingGet :: getter where
  "raisingGet a = None"

definition raisingSet :: setter where
  "raisingSet b a = None"

text \<open>\<^verbatim>\<open>Iso<number, number>({ to: (n) => n + 1, from: (n) => n - 1 })\<close>\<close>

definition succTo :: getter where
  "succTo x = (case x of Num n \<Rightarrow> Some (Num (n + 1)) | _ \<Rightarrow> None)"

definition succFrom :: getter where
  "succFrom x = (case x of Num n \<Rightarrow> Some (Num (n - 1)) | _ \<Rightarrow> None)"

text \<open>
  \<^verbatim>\<open>Prism<Model>().of({ get: (m) => m.count, set: (count) => (m) => ({ ...m, count }) })\<close>
\<close>

definition countGet :: getter where
  "countGet m = getProp exampleRealm m ''count''"

definition countSet :: setter where
  "countSet count m = Some (Obj (AList.update ''count'' count (spread exampleRealm m)))"
















section \<open>Each branch of the composition, and the constructors, as equations\<close>




lemma compose_Prism_Iso:
  "compose call (Prism g st) (Iso t f) =
     Prism (\<lambda>s. do { outerValue \<leftarrow> g s;
                     if outerValue = Undefined then Some Undefined else t outerValue })
           (\<lambda>b s. do {
              outerValue \<leftarrow> g s;
              if isFunction b then
                (if outerValue = Undefined then Some s
                 else do {
                   currentB \<leftarrow> t outerValue;
                   nextB \<leftarrow> invoke call b currentB;
                   newOuterValue \<leftarrow> f nextB;
                   st newOuterValue s
                 })
              else do { newOuterValue \<leftarrow> f b; st newOuterValue s }
            })"
  by (simp add: compose_def makePrism_def cong: if_cong)

lemma compose_Iso_Prism:
  "compose call (Iso t f) (Prism g' st') =
     Prism (\<lambda>s. do { a \<leftarrow> t s; g' a })
           (\<lambda>b s. do { a \<leftarrow> t s; newA \<leftarrow> st' b a; f newA })"
  by (simp add: compose_def makePrism_def cong: if_cong)


lemma compose_general:
  assumes "tag_of outer \<noteq> IsoTag" and "tag_of inner \<noteq> IsoTag"
    and "tag_of outer = PrismTag \<or> tag_of inner = PrismTag"
  shows "compose call outer inner =
     Prism (\<lambda>s. do { outerValue \<leftarrow> get_fn outer s;
                     if outerValue = Undefined then Some Undefined else get_fn inner outerValue })
           (\<lambda>b s. do {
              outerValue \<leftarrow> get_fn outer s;
              if outerValue = Undefined then Some s
              else do { newOuterValue \<leftarrow> set_fn inner b outerValue; set_fn outer newOuterValue s }
            })"
  using assms by (cases outer; cases inner) (simp_all add: compose_def makePrism_def cong: if_cong)

lemma prop_lens_eq:
  "prop_lens R call key =
     Lens (\<lambda>s. getProp R s key)
          (\<lambda>a s. do {
             newA \<leftarrow> (if isFunction a then do { cur \<leftarrow> getProp R s key; invoke call a cur }
                      else Some a);
             Some (Obj (AList.update key newA (spread R s)))
           })"
  by (simp add: prop_lens_def makeLens_def)

lemma of_prism_eq:
  "of_prism call prism_get prism_set =
     Prism prism_get
       (\<lambda>a s.
          if isFunction a then do {
            current \<leftarrow> prism_get s;
            if current = Undefined then Some s
            else do { next \<leftarrow> invoke call a current; prism_set next s }
          }
          else prism_set a s)"
  by (simp add: of_prism_def makePrism_def)

lemma composeForLens_eq: "composeForLens call outer inner = compose call outer inner"
  by (simp add: composeForLens_def)

lemma composeForPrism_eq: "composeForPrism call outer inner = compose call outer inner"
  by (simp add: composeForPrism_def)

section \<open>The variant of a composition\<close>

text \<open>
  Claim C3. For every pair of optics, the tag of \<open>compose outer inner\<close> is the entry of
  the combination table: Lens with Lens, Lens with Iso and Iso with Lens give a lens, Iso
  with Iso gives an iso, and the five combinations that involve a prism give a prism.
\<close>

theorem compose_tag_table:
  "tag_of (compose call outer inner) = combination_table (tag_of outer) (tag_of inner)"
  by (cases outer; cases inner) (simp_all add: compose_def makeLens_def makePrism_def makeIso_def)

section \<open>The prism constructor\<close>

text \<open>
  Claim C6. The prism constructor \<^verbatim>\<open>of\<close> turns the caller's setter into the fuller
  contract. For a literal update (an argument that is not a function) it calls the
  caller's setter directly. For a function update it first calls \<open>get s\<close>: if the result
  is absent it returns \<open>s\<close> unchanged, and otherwise it applies the function to the
  retrieved value and passes the result to the caller's setter. The getter is the
  caller's.
\<close>

theorem of_normalizes_setter:
  "(\<not> isFunction a \<longrightarrow> set_fn (of_prism call prism_get prism_set) a s = prism_set a s) \<and>
   (prism_get s = Some Undefined \<longrightarrow>
      set_fn (of_prism call prism_get prism_set) (Fn u) s = Some s) \<and>
   (prism_get s = Some current \<and> current \<noteq> Undefined \<longrightarrow>
      set_fn (of_prism call prism_get prism_set) (Fn u) s =
        do { next \<leftarrow> call u current; prism_set next s }) \<and>
   get_fn (of_prism call prism_get prism_set) = prism_get"
  by (simp add: readProp_def exampleRealm_def of_prism_eq)

text \<open>
  The count prism of the test suite: a literal materializes the field, the updater
  \<^verbatim>\<open>(r) => r + 1\<close> is a no-op on \<^verbatim>\<open>{}\<close> and turns \<^verbatim>\<open>{ count: 3 }\<close>
  into \<^verbatim>\<open>{ count: 4 }\<close>.
\<close>

theorem of_normalizes_setter_witness:
  "set_fn (of_prism exampleHost countGet countSet) (Num 9) (Obj []) = Some (Obj [(''count'', Num 9)]) \<and>
   set_fn (of_prism exampleHost countGet countSet) (Fn 0) (Obj []) = Some (Obj []) \<and>
   set_fn (of_prism exampleHost countGet countSet) (Fn 0) (Obj [(''count'', Num 3)]) =
     Some (Obj [(''count'', Num 4)])"
  using of_normalizes_setter [of "Num 9" exampleHost countGet countSet "Obj []" 0 Undefined]
    of_normalizes_setter [of "Num 9" exampleHost countGet countSet "Obj [(''count'', Num 3)]" 0 "Num 3"]
  by (simp add: readProp_def exampleRealm_def countGet_def countSet_def exampleHost_def)

section \<open>Prism with Iso\<close>

text \<open>
  Claim C7. For the composition of a prism with an iso: \<open>get s\<close> is absent when the
  outer prism's \<open>get\<close> is absent, and otherwise it is \<open>inner.to\<close> of the outer value;
  \<open>set\<close> with a function updater is a no-op when the outer value is absent, and otherwise
  applies the updater to \<open>inner.to outerValue\<close>, converts the result with \<open>inner.from\<close>
  and delegates to \<open>outer.set\<close>; \<open>set\<close> with a literal converts it with \<open>inner.from\<close> and
  delegates to \<open>outer.set\<close>, whatever the outer value is, absent included.
\<close>

theorem prism_iso_composition:
  "(g s = Some Undefined \<longrightarrow>
      get_fn (compose call (Prism g st) (Iso t f)) s = Some Undefined) \<and>
   (g s = Some outerValue \<and> outerValue \<noteq> Undefined \<longrightarrow>
      get_fn (compose call (Prism g st) (Iso t f)) s = t outerValue) \<and>
   (g s = Some Undefined \<longrightarrow>
      set_fn (compose call (Prism g st) (Iso t f)) (Fn u) s = Some s) \<and>
   (g s = Some outerValue \<and> outerValue \<noteq> Undefined \<longrightarrow>
      set_fn (compose call (Prism g st) (Iso t f)) (Fn u) s =
        do { currentB \<leftarrow> t outerValue; nextB \<leftarrow> call u currentB;
             newOuterValue \<leftarrow> f nextB; st newOuterValue s }) \<and>
   (g s = Some anyValue \<and> \<not> isFunction b \<longrightarrow>
      set_fn (compose call (Prism g st) (Iso t f)) b s =
        do { newOuterValue \<leftarrow> f b; st newOuterValue s })"
  by (simp add: readProp_def exampleRealm_def compose_Prism_Iso)

text \<open>
  The count prism composed with the iso \<^verbatim>\<open>n + 1\<close> / \<^verbatim>\<open>n - 1\<close>: on \<^verbatim>\<open>{}\<close>
  the literal 9 materializes \<^verbatim>\<open>{ count: 8 }\<close> and the updater is a no-op.
\<close>

theorem prism_iso_composition_witness:
  "get_fn (compose exampleHost (Prism countGet countSet) (Iso succTo succFrom)) (Obj []) = Some Undefined \<and>
   get_fn (compose exampleHost (Prism countGet countSet) (Iso succTo succFrom)) (Obj [(''count'', Num 5)]) = Some (Num 6) \<and>
   set_fn (compose exampleHost (Prism countGet countSet) (Iso succTo succFrom)) (Fn 0) (Obj []) = Some (Obj []) \<and>
   set_fn (compose exampleHost (Prism countGet countSet) (Iso succTo succFrom)) (Fn 0) (Obj [(''count'', Num 5)]) =
     Some (Obj [(''count'', Num 6)]) \<and>
   set_fn (compose exampleHost (Prism countGet countSet) (Iso succTo succFrom)) (Num 9) (Obj []) =
     Some (Obj [(''count'', Num 8)])"
  using prism_iso_composition [of countGet "Obj []" exampleHost countSet succTo succFrom Undefined 0 Undefined "Num 9"]
    prism_iso_composition [of countGet "Obj [(''count'', Num 5)]" exampleHost countSet succTo succFrom "Num 5" 0 "Num 5" "Num 9"]
  by (simp add: readProp_def exampleRealm_def countGet_def countSet_def succTo_def succFrom_def exampleHost_def)

section \<open>Absence on get\<close>

text \<open>
  Claim C8. For every composition whose outer operand is a prism: when the outer \<open>get\<close>
  is absent on a source, the composed \<open>get\<close> returns absent, and it does so without
  invoking the inner optic. The inner optic is arbitrary here, so the result is the same
  for an inner \<open>get\<close> (or \<open>to\<close>) that raises on every input, which a call would have
  propagated.
\<close>

theorem absent_outer_skips_inner:
  assumes "tag_of outer = PrismTag" and "get_fn outer s = Some Undefined"
  shows "get_fn (compose call outer inner) s = Some Undefined"
  using assms by (cases outer; cases inner) (simp_all add: compose_general compose_Prism_Iso)

text \<open>The address prism on a person without address, before two inner optics that raise.\<close>

theorem absent_outer_skips_inner_witness:
  "tag_of addressPrism = PrismTag \<and> get_fn addressPrism personA = Some Undefined \<and>
   get_fn (compose exampleHost addressPrism (Lens raisingGet raisingSet)) personA = Some Undefined \<and>
   get_fn (compose exampleHost addressPrism (Iso raisingGet raisingGet)) personA = Some Undefined"
proof -
  have t: "tag_of addressPrism = PrismTag"
    by (simp add: readProp_def exampleRealm_def addressPrism_def of_prism_eq)
  have g: "get_fn addressPrism personA = Some Undefined"
    by (simp add: readProp_def exampleRealm_def addressPrism_def of_prism_eq addressGet_def personA_def)
  show ?thesis
    using t g absent_outer_skips_inner [OF t g, of exampleHost "Lens raisingGet raisingSet"]
      absent_outer_skips_inner [OF t g, of exampleHost "Iso raisingGet raisingGet"]
    by simp
qed

section \<open>Setting over an absent outer branch\<close>

text \<open>
  Claim C1, as amended. The claim says that every composition that contains a prism
  delegates a literal \<open>set\<close> over an absent outer branch to the outer optic's \<open>set\<close>. On
  the code only Prism with Iso does: there the literal is converted with \<open>inner.from\<close> and
  handed to \<open>outer.set\<close>. Lens with Prism, Prism with Lens and Prism with Prism (the
  general branch) return the source unchanged. Iso with Prism has no outer \<open>get\<close> and no
  absence test: it always passes \<open>outer.to s\<close> through \<open>inner.set\<close> and converts back
  with \<open>outer.from\<close>.
\<close>

theorem literal_set_absent_outer:
  assumes "\<not> isFunction b"
  shows "(g s = Some Undefined \<longrightarrow>
           set_fn (compose call (Prism g st) (Iso t f)) b s =
             do { newOuterValue \<leftarrow> f b; st newOuterValue s }) \<and>
         (tag_of outer \<noteq> IsoTag \<and> tag_of inner \<noteq> IsoTag \<and>
          (tag_of outer = PrismTag \<or> tag_of inner = PrismTag) \<and>
          get_fn outer s = Some Undefined \<longrightarrow>
            set_fn (compose call outer inner) b s = Some s) \<and>
         set_fn (compose call (Iso t' f') (Prism g' st')) b s =
           do { a \<leftarrow> t' s; newA \<leftarrow> st' b a; f' newA }"
  using assms by (simp add: readProp_def exampleRealm_def compose_Prism_Iso compose_general compose_Iso_Prism)

theorem literal_set_absent_outer_witness:
  "\<not> isFunction (Num 9) \<and>
   set_fn (compose exampleHost (Prism countGet countSet) (Iso succTo succFrom)) (Num 9) (Obj []) =
     Some (Obj [(''count'', Num 8)]) \<and>
   set_fn (compose exampleHost addressPrism cityLens) (Num 9) personA = Some personA \<and>
   set_fn (compose exampleHost (Iso boxTo boxFrom) (Prism selfGet selfSet)) (Num 9) (Obj []) =
     Some (Obj [(''value'', Num 9)])"
proof -
  have lit: "\<not> isFunction (Num 9)" by simp
  have abs: "countGet (Obj []) = Some Undefined" by (simp add: readProp_def exampleRealm_def countGet_def)
  have tags: "tag_of addressPrism \<noteq> IsoTag \<and> tag_of cityLens \<noteq> IsoTag \<and>
              (tag_of addressPrism = PrismTag \<or> tag_of cityLens = PrismTag) \<and>
              get_fn addressPrism personA = Some Undefined"
    by (simp add: readProp_def exampleRealm_def addressPrism_def cityLens_def of_prism_eq prop_lens_eq addressGet_def personA_def)
  show ?thesis
    using lit abs tags
      literal_set_absent_outer [OF lit, of countGet "Obj []" exampleHost countSet succTo succFrom
        addressPrism cityLens boxTo boxFrom selfGet selfSet]
      literal_set_absent_outer [OF lit, of countGet personA exampleHost countSet succTo succFrom
        addressPrism cityLens boxTo boxFrom selfGet selfSet]
    by (simp add: readProp_def exampleRealm_def countSet_def succFrom_def boxTo_def selfSet_def boxFrom_def)
qed

text \<open>
  The claim as stated fails on \<^verbatim>\<open>cityPrism\<close> of the documentation (Prism with
  Lens): the person has no address, \<^verbatim>\<open>cityPrism.set('LA')\<close> returns the person
  unchanged, although the outer prism's own \<open>set\<close> would have given the person an address.
\<close>

theorem literal_set_absent_outer_counterexample:
  "get_fn addressPrism personA = Some Undefined \<and>
   set_fn cityPrism (Str ''LA'') personA = Some personA \<and>
   set_fn addressPrism (Obj [(''city'', Str ''LA'')]) personA =
     Some (Obj [(''name'', Str ''A''), (''address'', Obj [(''city'', Str ''LA'')])])"
  by (simp add: readProp_def exampleRealm_def cityPrism_def cityLens_def addressPrism_def of_prism_eq prop_lens_eq compose_general
      addressGet_def addressSet_def personA_def)

text \<open>
  Claim C2, as amended. For Lens with Prism, Prism with Lens and Prism with Prism the
  composed \<open>set\<close> first obtains the outer value with the outer optic's \<open>get\<close>; if it is
  absent, \<open>set\<close> returns the source unchanged, for a literal and for a function updater
  alike, and otherwise it is \<open>outer.set (inner.set b outerValue) s\<close>. Iso with Prism is
  not of this form: it has its own branch, which makes no absence test.
\<close>

theorem set_noop_missing_outer:
  "(tag_of outer \<noteq> IsoTag \<and> tag_of inner \<noteq> IsoTag \<and>
    (tag_of outer = PrismTag \<or> tag_of inner = PrismTag) \<longrightarrow>
      (get_fn outer s = Some Undefined \<longrightarrow> set_fn (compose call outer inner) b s = Some s) \<and>
      (get_fn outer s = Some outerValue \<and> outerValue \<noteq> Undefined \<longrightarrow>
         set_fn (compose call outer inner) b s =
           do { newOuterValue \<leftarrow> set_fn inner b outerValue; set_fn outer newOuterValue s })) \<and>
   set_fn (compose call (Iso t f) (Prism g st)) b s =
     do { a \<leftarrow> t s; newA \<leftarrow> st b a; f newA }"
  by (simp add: readProp_def exampleRealm_def compose_general compose_Iso_Prism)

theorem set_noop_missing_outer_witness:
  "set_fn (compose exampleHost addressPrism cityLens) (Str ''LA'') personA = Some personA \<and>
   set_fn (compose exampleHost addressPrism cityLens) (Fn 0) personA = Some personA \<and>
   set_fn (compose exampleHost addressPrism cityLens) (Str ''LA'')
       (Obj [(''name'', Str ''A''), (''address'', Obj [(''city'', Str ''NYC'')])]) =
     Some (Obj [(''name'', Str ''A''), (''address'', Obj [(''city'', Str ''LA'')])])"
proof -
  have tags: "tag_of addressPrism \<noteq> IsoTag \<and> tag_of cityLens \<noteq> IsoTag \<and>
              (tag_of addressPrism = PrismTag \<or> tag_of cityLens = PrismTag)"
    by (simp add: readProp_def exampleRealm_def addressPrism_def cityLens_def of_prism_eq prop_lens_eq)
  have abs: "get_fn addressPrism personA = Some Undefined"
    by (simp add: readProp_def exampleRealm_def addressPrism_def of_prism_eq addressGet_def personA_def)
  have pres: "get_fn addressPrism (Obj [(''name'', Str ''A''), (''address'', Obj [(''city'', Str ''NYC'')])])
              = Some (Obj [(''city'', Str ''NYC'')])"
    by (simp add: readProp_def exampleRealm_def addressPrism_def of_prism_eq addressGet_def)
  have inner: "set_fn cityLens (Str ''LA'') (Obj [(''city'', Str ''NYC'')]) = Some (Obj [(''city'', Str ''LA'')])"
    by (simp add: readProp_def exampleRealm_def cityLens_def prop_lens_eq)
  have outer: "set_fn addressPrism (Obj [(''city'', Str ''LA'')])
                 (Obj [(''name'', Str ''A''), (''address'', Obj [(''city'', Str ''NYC'')])]) =
               Some (Obj [(''name'', Str ''A''), (''address'', Obj [(''city'', Str ''LA'')])])"
    by (simp add: readProp_def exampleRealm_def addressPrism_def of_prism_eq addressSet_def)
  show ?thesis
    using tags abs pres inner outer
      set_noop_missing_outer [of addressPrism cityLens personA exampleHost "Str ''LA''" Undefined]
      set_noop_missing_outer [of addressPrism cityLens personA exampleHost "Fn 0" Undefined]
      set_noop_missing_outer [of addressPrism cityLens
        "Obj [(''name'', Str ''A''), (''address'', Obj [(''city'', Str ''NYC'')])]" exampleHost
        "Str ''LA''" "Obj [(''city'', Str ''NYC'')]"]
    by simp
qed

text \<open>
  The claim as stated fails for Iso with Prism: the outer iso maps \<^verbatim>\<open>{}\<close> to
  \<open>undefined\<close>, and the composed \<open>set\<close> of the literal 5 returns \<^verbatim>\<open>{ value: 5 }\<close>,
  not the source.
\<close>

theorem set_noop_missing_outer_counterexample:
  "to_fn boxIso (Obj []) = Some Undefined \<and>
   set_fn (compose exampleHost boxIso selfPrism) (Num 5) (Obj []) = Some (Obj [(''value'', Num 5)]) \<and>
   Obj [(''value'', Num 5)] \<noteq> Obj []"
  by (simp add: readProp_def exampleRealm_def boxIso_def makeIso_def selfPrism_def of_prism_eq compose_Iso_Prism boxTo_def boxFrom_def
      selfSet_def)

section \<open>The laws of the lenses built from prop\<close>











section \<open>The get/set round trip of lenses\<close>










section \<open>Functions as arguments of set\<close>









text \<open>
  Claim C10, as amended. The prism built by \<^verbatim>\<open>of\<close> hands to the caller's setter
  the argument itself when it is not a function, and otherwise the result of applying it
  to \<open>get s\<close>. Two caller setters that agree on all values that are not functions (so
  that they differ at most in how they treat a function) therefore give the same
  normalized \<open>set\<close>, provided the updater's result is not itself a function. The claim as
  stated drops that proviso.
\<close>

theorem of_setter_sees_updater_result:
  assumes "\<forall>v s. \<not> isFunction v \<longrightarrow> st1 v s = st2 v s"
    and "\<forall>current next. prism_get s = Some current \<longrightarrow> invoke call a current = Some next \<longrightarrow>
           \<not> isFunction next"
  shows "set_fn (of_prism call prism_get st1) a s = set_fn (of_prism call prism_get st2) a s"
proof (cases "isFunction a")
  case False
  with assms(1) show ?thesis by (simp add: readProp_def exampleRealm_def of_prism_eq)
next
  case True
  have "(do { current \<leftarrow> prism_get s;
              if current = Undefined then Some s
              else do { next \<leftarrow> invoke call a current; st1 next s } }) =
        (do { current \<leftarrow> prism_get s;
              if current = Undefined then Some s
              else do { next \<leftarrow> invoke call a current; st2 next s } })"
  proof (rule Option.bind_cong [OF refl])
    fix current assume c: "prism_get s = Some current"
    have "(do { next \<leftarrow> invoke call a current; st1 next s }) =
          (do { next \<leftarrow> invoke call a current; st2 next s })"
    proof (rule Option.bind_cong [OF refl])
      fix "next" assume "invoke call a current = Some next"
      with assms(2) c have "\<not> isFunction next" by blast
      with assms(1) show "st1 next s = st2 next s" by blast
    qed
    then show "(if current = Undefined then Some s
                else do { next \<leftarrow> invoke call a current; st1 next s }) =
               (if current = Undefined then Some s
                else do { next \<leftarrow> invoke call a current; st2 next s })"
      by simp
  qed
  with True show ?thesis by (simp add: readProp_def exampleRealm_def of_prism_eq)
qed

lemma handlerSet_agree: "\<not> isFunction v \<Longrightarrow> handlerSetFull v p = handlerSetBase v p"
  by (simp add: readProp_def exampleRealm_def handlerSetFull_def handlerSetBase_def)

theorem of_setter_sees_updater_result_witness:
  "set_fn (of_prism exampleHost handlerGet handlerSetFull) (Fn 1) handlerSource =
     set_fn (of_prism exampleHost handlerGet handlerSetBase) (Fn 1) handlerSource \<and>
   set_fn (of_prism exampleHost handlerGet handlerSetBase) (Fn 1) handlerSource =
     Some (Obj [(''onClick'', Num 0)])"
proof -
  have agree: "\<forall>v s. \<not> isFunction v \<longrightarrow> handlerSetFull v s = handlerSetBase v s"
    by (simp add: readProp_def exampleRealm_def handlerSet_agree)
  have res: "\<forall>current next. handlerGet handlerSource = Some current \<longrightarrow>
               invoke exampleHost (Fn 1) current = Some next \<longrightarrow> \<not> isFunction next"
    by (auto simp add: readProp_def exampleRealm_def handlerGet_def handlerSource_def exampleHost_def)
  have val: "set_fn (of_prism exampleHost handlerGet handlerSetBase) (Fn 1) handlerSource =
             Some (Obj [(''onClick'', Num 0)])"
    by (simp add: readProp_def exampleRealm_def of_prism_eq handlerGet_def handlerSetBase_def handlerSource_def exampleHost_def)
  from agree res val
    of_setter_sees_updater_result [of handlerSetFull handlerSetBase handlerGet handlerSource
      exampleHost "Fn 1"]
  show ?thesis by simp
qed

text \<open>
  Without the proviso the claim fails when the target is function-typed: the updater
  \<^verbatim>\<open>f3\<close> returns the function \<^verbatim>\<open>f1\<close>, the fuller setter of the caller
  receives \<^verbatim>\<open>f1\<close> and applies it as an updater (the field becomes 0), where a
  setter that installs what it is given stores \<^verbatim>\<open>f1\<close>.
\<close>

theorem of_setter_sees_updater_result_counterexample:
  "exampleHost 3 (Fn 2) = Some (Fn 1) \<and>
   set_fn (of_prism exampleHost handlerGet handlerSetFull) (Fn 3) handlerSource =
     Some (Obj [(''onClick'', Num 0)]) \<and>
   set_fn (of_prism exampleHost handlerGet handlerSetBase) (Fn 3) handlerSource =
     Some (Obj [(''onClick'', Fn 1)])"
  by (simp add: readProp_def exampleRealm_def of_prism_eq handlerGet_def handlerSetBase_def handlerSetFull_def handlerSource_def
      exampleHost_def)

section \<open>What the property setter leaves alone\<close>












end
